theory Spec2Isabelle
  imports
    Main
    "HOL-Library.Char_ord"
    "HOL-Library.List_Lexorder"
    "HOL-Library.Option_ord"
    "HOL-Library.Product_Lexorder"
    "HOL-Library.Sublist"
    "HOL-Library.Multiset"
begin

section \<open>Python values used by the service-attachment helpers\<close>

text \<open>
  Strings are lists of characters, compared lexicographically by code point as Python
  compares \<open>str\<close>. Exceptions are values of the type \<open>error\<close>; a function that may
  raise returns \<open>error + 'a\<close>, with \<open>Inl\<close> for the exception.
  \<^item> \<open>ValueError msg\<close>: a \<open>ValueError\<close> raised by the code itself, with its message;
  \<^item> \<open>InvalidIntLiteral s\<close>: the \<open>ValueError\<close> of \<open>int(s)\<close> on a string that is no
    decimal literal;
  \<^item> \<open>TypeError\<close>: \<open>int(None)\<close>, or an ordering comparison between \<open>None\<close> and a
    string or a number;
  \<^item> \<open>ConflictingArgumentsException msg\<close> and \<open>RequiredArgumentException flag msg\<close>:
    the exceptions of the command-line framework.
\<close>

datatype error =
    ValueError string
  | InvalidIntLiteral string
  | TypeError
  | ConflictingArgumentsException string
  | RequiredArgumentException string string

text \<open>\<open>needle in hay\<close> on strings: \<open>needle\<close> occurs in \<open>hay\<close> as a contiguous run.\<close>

fun str_in :: "string \<Rightarrow> string \<Rightarrow> bool" where
  "str_in needle [] = (needle = [])"
| "str_in needle (c # cs) = (prefix needle (c # cs) \<or> str_in needle cs)"

text \<open>
  \<open>int(s)\<close> on a string of code points below 256: surrounding white space is dropped,
  one sign is allowed, and the digits may be grouped by single underscores.
\<close>

definition py_isspace :: "char \<Rightarrow> bool" where
  "py_isspace c = ((of_char c :: nat) \<in> {9, 10, 11, 12, 13, 28, 29, 30, 31, 32, 133, 160})"

definition py_strip :: "string \<Rightarrow> string" where
  "py_strip s = rev (dropWhile py_isspace (rev (dropWhile py_isspace s)))"

definition is_digit :: "char \<Rightarrow> bool" where
  "is_digit c = (48 \<le> (of_char c :: nat) \<and> (of_char c :: nat) \<le> 57)"

definition digit_val :: "char \<Rightarrow> int" where
  "digit_val c = int (of_char c) - 48"

fun parse_digits :: "bool \<Rightarrow> int \<Rightarrow> string \<Rightarrow> int option" where
  "parse_digits prev_digit acc [] = (if prev_digit then Some acc else None)"
| "parse_digits prev_digit acc (c # cs) =
     (if is_digit c then parse_digits True (acc * 10 + digit_val c) cs
      else if c = CHR ''_'' \<and> prev_digit then parse_digits False acc cs
      else None)"

definition parse_int :: "string \<Rightarrow> int option" where
  "parse_int s =
     (case py_strip s of
        [] \<Rightarrow> None
      | c # cs \<Rightarrow>
          if c = CHR ''+'' then parse_digits False 0 cs
          else if c = CHR ''-'' then map_option uminus (parse_digits False 0 cs)
          else parse_digits False 0 (c # cs))"

text \<open>\<open>int(v)\<close> where \<open>v\<close> is a string or \<open>None\<close>.\<close>

definition py_int :: "string option \<Rightarrow> error + int" where
  "py_int v =
     (case v of
        None \<Rightarrow> Inl TypeError
      | Some s \<Rightarrow> (case parse_int s of None \<Rightarrow> Inl (InvalidIntLiteral s) | Some n \<Rightarrow> Inr n))"

text \<open>\<open>not v\<close> for a value that is \<open>None\<close> or a string: true for \<open>None\<close> and for \<open>''\<close>.\<close>

definition py_not :: "string option \<Rightarrow> bool" where
  "py_not v = (v = None \<or> v = Some [])"

section \<open>Messages\<close>

text \<open>
  \<open>ServiceAttachmentConsumerProjectLimit\<close>: one accept-list entry. The three identifier
  fields and the limit are optional fields of one message; the kind of an entry is the
  identifier field that is set.
\<close>

record ServiceAttachmentConsumerProjectLimit =
  projectIdOrNum :: "string option"
  networkUrl :: "string option"
  endpointUrl :: "string option"
  connectionLimit :: "int option"

definition empty_limit :: ServiceAttachmentConsumerProjectLimit where
  "empty_limit =
     \<lparr>projectIdOrNum = None, networkUrl = None, endpointUrl = None, connectionLimit = None\<rparr>"

text \<open>
  A Python \<open>dict\<close> from identifier to raw limit is an association list; the raw limit is a
  string, or \<open>None\<close> for an identifier given without a value. The value of
  \<open>args.consumer_accept_list\<close> is a list of such dicts, one for each occurrence of the flag.
\<close>

type_synonym limit_dict = "(string \<times> string option) list"

text \<open>
  \<open>sorted(six.iteritems(d))\<close>: the items in ascending order. The keys of a dict are
  distinct, so the comparison of two items is decided by their keys.
\<close>

definition sorted_items :: "limit_dict \<Rightarrow> (string \<times> string option) list" where
  "sorted_items d = sort_key fst d"

section \<open>The accept-list normalizers\<close>

text \<open>The body of the inner loop of \<open>GetConsumerAcceptList\<close>, for one item.\<close>

definition accept_entry :: "string \<times> string option \<Rightarrow> error + ServiceAttachmentConsumerProjectLimit" where
  "accept_entry item =
     (case item of (project_id_or_network_url, conn_limit) \<Rightarrow>
        if str_in ''/networks/'' project_id_or_network_url then
          (case py_int conn_limit of
             Inl e \<Rightarrow> Inl e
           | Inr n \<Rightarrow> Inr (empty_limit\<lparr>networkUrl := Some project_id_or_network_url,
                                      connectionLimit := Some n\<rparr>))
        else if str_in ''/forwardingRules/'' project_id_or_network_url then
          Inl (ValueError
            ''Private Service Connect Endpoint URL is not supported for consumer accept list'')
        else
          (case py_int conn_limit of
             Inl e \<Rightarrow> Inl e
           | Inr n \<Rightarrow> Inr (empty_limit\<lparr>projectIdOrNum := Some project_id_or_network_url,
                                      connectionLimit := Some n\<rparr>)))"

text \<open>
  The body of the inner loop of \<open>GetConsumerAcceptListWithEndpointBasedSecurity\<close>, for one
  item.
\<close>

definition accept_entry_ebs :: "string \<times> string option \<Rightarrow> error + ServiceAttachmentConsumerProjectLimit" where
  "accept_entry_ebs item =
     (case item of (consumer_entry, conn_limit_raw) \<Rightarrow>
        if str_in ''/networks/'' consumer_entry then
          (if py_not conn_limit_raw then
             Inl (ValueError (''Connection limit is required for network URL: '' @ consumer_entry))
           else
             (case py_int conn_limit_raw of
                Inl e \<Rightarrow> Inl e
              | Inr n \<Rightarrow> Inr (empty_limit\<lparr>networkUrl := Some consumer_entry,
                                         connectionLimit := Some n\<rparr>)))
        else if str_in ''/forwardingRules/'' consumer_entry then
          (if \<not> py_not conn_limit_raw then
             (case py_int conn_limit_raw of
                Inl e \<Rightarrow> Inl e
              | Inr n \<Rightarrow> Inr (empty_limit\<lparr>endpointUrl := Some consumer_entry,
                                         connectionLimit := Some n\<rparr>))
           else Inr (empty_limit\<lparr>endpointUrl := Some consumer_entry\<rparr>))
        else
          (if py_not conn_limit_raw then
             Inl (ValueError
               (''Connection limit is required for project ID or number: '' @ consumer_entry))
           else
             (case py_int conn_limit_raw of
                Inl e \<Rightarrow> Inl e
              | Inr n \<Rightarrow> Inr (empty_limit\<lparr>projectIdOrNum := Some consumer_entry,
                                         connectionLimit := Some n\<rparr>))))"

text \<open>
  The two nested loops append to \<open>consumer_accept_list\<close> and stop at the first exception:
  \<open>append_entries\<close> runs a loop body over a list of items from an accumulator.
\<close>

fun append_entries ::
  "('i \<Rightarrow> error + 'e) \<Rightarrow> 'e list \<Rightarrow> 'i list \<Rightarrow> error + 'e list" where
  "append_entries body acc [] = Inr acc"
| "append_entries body acc (item # items) =
     (case body item of
        Inl e \<Rightarrow> Inl e
      | Inr entry \<Rightarrow> append_entries body (acc @ [entry]) items)"

fun accept_list_loop ::
  "(string \<times> string option \<Rightarrow> error + ServiceAttachmentConsumerProjectLimit) \<Rightarrow>
   ServiceAttachmentConsumerProjectLimit list \<Rightarrow> limit_dict list \<Rightarrow>
   error + ServiceAttachmentConsumerProjectLimit list" where
  "accept_list_loop body acc [] = Inr acc"
| "accept_list_loop body acc (project_limit # rest) =
     (case append_entries body acc (sorted_items project_limit) of
        Inl e \<Rightarrow> Inl e
      | Inr acc' \<Rightarrow> accept_list_loop body acc' rest)"

definition GetConsumerAcceptList ::
  "limit_dict list \<Rightarrow> error + ServiceAttachmentConsumerProjectLimit list" where
  "GetConsumerAcceptList consumer_accept_list = accept_list_loop accept_entry [] consumer_accept_list"

definition GetConsumerAcceptListWithEndpointBasedSecurity ::
  "limit_dict list \<Rightarrow> error + ServiceAttachmentConsumerProjectLimit list" where
  "GetConsumerAcceptListWithEndpointBasedSecurity consumer_accept_list =
     accept_list_loop accept_entry_ebs [] consumer_accept_list"

section \<open>The service attachment and the connected-endpoint IDs\<close>

datatype ConnectionPreferenceValueValuesEnum =
  ACCEPT_AUTOMATIC | ACCEPT_MANUAL | CONNECTION_PREFERENCE_UNSPECIFIED

record ConnectedEndpoint =
  endpointWithId :: "string option"

text \<open>
  The fields of \<open>ServiceAttachment\<close> that the update command reads or writes; every other
  field of the message is in the extension part of the record. An optional field is
  \<open>None\<close> when unset. The code tests the repeated fields against \<open>None\<close>, so they are
  optional lists here.
\<close>

record ServiceAttachment =
  targetService :: "string option"
  description :: "string option"
  connectionPreference :: "ConnectionPreferenceValueValuesEnum option"
  enableProxyProtocol :: "bool option"
  natSubnets :: "string list option"
  consumerRejectLists :: "string list option"
  consumerAcceptLists :: "ServiceAttachmentConsumerProjectLimit list option"
  connectedEndpoints :: "ConnectedEndpoint list option"
  reconcileConnections :: "bool option"
  propagatedConnectionLimit :: "int option"

definition GetConnectionPreference ::
  "string \<Rightarrow> ConnectionPreferenceValueValuesEnum option" where
  "GetConnectionPreference connection_preference =
     (if connection_preference = ''ACCEPT_AUTOMATIC'' then Some ACCEPT_AUTOMATIC
      else if connection_preference = ''ACCEPT_MANUAL'' then Some ACCEPT_MANUAL
      else None)"

text \<open>\<open>s.rstrip('/').split('/')[-1]\<close>\<close>

definition rstrip_slash :: "string \<Rightarrow> string" where
  "rstrip_slash s = rev (dropWhile (\<lambda>c. c = CHR ''/'') (rev s))"

definition last_segment :: "string \<Rightarrow> string" where
  "last_segment s = rev (takeWhile (\<lambda>c. c \<noteq> CHR ''/'') (rev s))"

definition trailing_id :: "string \<Rightarrow> string" where
  "trailing_id s = last_segment (rstrip_slash s)"

definition GetConnectedEndpointIds :: "'a ServiceAttachment_scheme \<Rightarrow> string set" where
  "GetConnectedEndpointIds service_attachment =
     set (concat (map
       (\<lambda>ep. case endpointWithId ep of
                None \<Rightarrow> []
              | Some url \<Rightarrow> if url = [] then [] else [trailing_id url])
       (case connectedEndpoints service_attachment of None \<Rightarrow> [] | Some eps \<Rightarrow> eps)))"

section \<open>Pruning obsolete endpoint entries\<close>

text \<open>
  Both functions assign the filtered list to the service attachment they are given and
  update \<open>cleared_fields\<close> in place; the model returns the result, the service attachment
  and the list of cleared fields.
\<close>

definition accepted_entry_kept :: "string set \<Rightarrow> ServiceAttachmentConsumerProjectLimit \<Rightarrow> bool" where
  "accepted_entry_kept connected_endpoint_ids entry =
     (case endpointUrl entry of
        None \<Rightarrow> True
      | Some url \<Rightarrow> url = [] \<or> trailing_id url \<in> connected_endpoint_ids)"

definition rejected_entry_kept :: "string set \<Rightarrow> string \<Rightarrow> bool" where
  "rejected_entry_kept connected_endpoint_ids entry =
     (\<not> str_in ''/forwardingRules/'' entry \<or> trailing_id entry \<in> connected_endpoint_ids)"

definition CleanObsoleteAcceptedEndpointUrls ::
  "'a ServiceAttachment_scheme \<Rightarrow> string set \<Rightarrow> string list \<Rightarrow>
   bool \<times> 'a ServiceAttachment_scheme \<times> string list" where
  "CleanObsoleteAcceptedEndpointUrls service_attachment connected_endpoint_ids cleared_fields =
     (case consumerAcceptLists service_attachment of
        None \<Rightarrow> (False, service_attachment, cleared_fields)
      | Some old_accept_list \<Rightarrow>
          if old_accept_list = [] then (False, service_attachment, cleared_fields)
          else
            let old_accept_list_len = length old_accept_list;
                cleaned_accept_list =
                  filter (accepted_entry_kept connected_endpoint_ids) old_accept_list;
                service_attachment' =
                  service_attachment\<lparr>consumerAcceptLists := Some cleaned_accept_list\<rparr>
            in
              if length cleaned_accept_list = old_accept_list_len then
                (False, service_attachment', cleared_fields)
              else if cleaned_accept_list = [] \<and> ''consumerAcceptLists'' \<notin> set cleared_fields then
                (True, service_attachment', cleared_fields @ [''consumerAcceptLists''])
              else if cleaned_accept_list \<noteq> [] \<and> ''consumerAcceptLists'' \<in> set cleared_fields then
                (True, service_attachment', remove1 ''consumerAcceptLists'' cleared_fields)
              else (True, service_attachment', cleared_fields))"

definition CleanObsoleteRejectedEndpointUrls ::
  "'a ServiceAttachment_scheme \<Rightarrow> string set \<Rightarrow> string list \<Rightarrow>
   bool \<times> 'a ServiceAttachment_scheme \<times> string list" where
  "CleanObsoleteRejectedEndpointUrls service_attachment connected_endpoint_ids cleared_fields =
     (case consumerRejectLists service_attachment of
        None \<Rightarrow> (False, service_attachment, cleared_fields)
      | Some old_reject_list \<Rightarrow>
          if old_reject_list = [] then (False, service_attachment, cleared_fields)
          else
            let old_reject_list_len = length old_reject_list;
                cleaned_reject_list =
                  filter (rejected_entry_kept connected_endpoint_ids) old_reject_list;
                service_attachment' =
                  service_attachment\<lparr>consumerRejectLists := Some cleaned_reject_list\<rparr>
            in
              if length cleaned_reject_list = old_reject_list_len then
                (False, service_attachment', cleared_fields)
              else if cleaned_reject_list = [] \<and> ''consumerRejectLists'' \<notin> set cleared_fields then
                (True, service_attachment', cleared_fields @ [''consumerRejectLists''])
              else if cleaned_reject_list \<noteq> [] \<and> ''consumerRejectLists'' \<in> set cleared_fields then
                (True, service_attachment', remove1 ''consumerRejectLists'' cleared_fields)
              else (True, service_attachment', cleared_fields))"

definition RemoveObsoleteEndpointEntries ::
  "'a ServiceAttachment_scheme \<Rightarrow> string list \<Rightarrow>
   bool \<times> 'a ServiceAttachment_scheme \<times> string list" where
  "RemoveObsoleteEndpointEntries replacement cleared_fields =
     (let connected_endpoint_ids = GetConnectedEndpointIds replacement in
      case CleanObsoleteAcceptedEndpointUrls replacement connected_endpoint_ids cleared_fields of
        (accept_changed, replacement1, cleared_fields1) \<Rightarrow>
          (case CleanObsoleteRejectedEndpointUrls replacement1 connected_endpoint_ids
                  cleared_fields1 of
             (reject_changed, replacement2, cleared_fields2) \<Rightarrow>
               (accept_changed \<or> reject_changed, replacement2, cleared_fields2)))"

section \<open>Sorting the accept list\<close>

text \<open>
  The sort key of an accept-list entry is the pair of an identifier and the connection
  limit; either component may be \<open>None\<close>.
\<close>

type_synonym limit_key = "string option \<times> int option"

definition GetProjectOrNetwork :: "ServiceAttachmentConsumerProjectLimit \<Rightarrow> limit_key" where
  "GetProjectOrNetwork consumer_limit =
     (if projectIdOrNum consumer_limit \<noteq> None then
        (projectIdOrNum consumer_limit, connectionLimit consumer_limit)
      else (networkUrl consumer_limit, connectionLimit consumer_limit))"

definition GetProjectOrNetworkOrEndpoint :: "ServiceAttachmentConsumerProjectLimit \<Rightarrow> limit_key" where
  "GetProjectOrNetworkOrEndpoint consumer_limit =
     (if projectIdOrNum consumer_limit \<noteq> None then
        (projectIdOrNum consumer_limit, connectionLimit consumer_limit)
      else if endpointUrl consumer_limit \<noteq> None then
        (endpointUrl consumer_limit, connectionLimit consumer_limit)
      else (networkUrl consumer_limit, connectionLimit consumer_limit))"

definition GetProjectOrNetworkOrEndpointBasedOnArg ::
  "bool \<Rightarrow> ServiceAttachmentConsumerProjectLimit \<Rightarrow> limit_key" where
  "GetProjectOrNetworkOrEndpointBasedOnArg support_endpoint_based_security_arg consumer_limit =
     (if support_endpoint_based_security_arg then GetProjectOrNetworkOrEndpoint consumer_limit
      else GetProjectOrNetwork consumer_limit)"

text \<open>
  Python orders two tuples by the first position at which they differ, and ordering
  \<open>None\<close> against a string, a number or \<open>None\<close> raises \<open>TypeError\<close>. Two keys can be
  ordered when, at that position, both components are present.
\<close>

definition py_comparable :: "limit_key \<Rightarrow> limit_key \<Rightarrow> bool" where
  "py_comparable k1 k2 =
     (if fst k1 = fst k2 then snd k1 = snd k2 \<or> (snd k1 \<noteq> None \<and> snd k2 \<noteq> None)
      else fst k1 \<noteq> None \<and> fst k2 \<noteq> None)"

text \<open>
  \<open>sorted(xs, key=f)\<close>: a stable sort by key. A comparison sort has to compare every two
  elements that end up next to each other with different keys, so the call raises
  \<open>TypeError\<close> exactly when two of the keys cannot be ordered.
\<close>

definition py_sorted_key :: "('e \<Rightarrow> limit_key) \<Rightarrow> 'e list \<Rightarrow> error + 'e list" where
  "py_sorted_key f xs =
     (if \<forall>x \<in> set xs. \<forall>y \<in> set xs. py_comparable (f x) (f y) then Inr (sort_key f xs)
      else Inl TypeError)"

section \<open>The patch builder\<close>

text \<open>
  The parsed arguments. A flag that \<open>args.IsSpecified\<close> reports as given is \<open>Some\<close> of
  its value, a flag that was not given is \<open>None\<close>. \<open>arg_nat_subnets\<close> holds the self
  links that \<open>_GetNatSubnets\<close> returns for the flag.
\<close>

record Args =
  arg_target_service :: "string option"
  arg_description :: "string option"
  arg_connection_preference :: "string option"
  arg_enable_proxy_protocol :: "bool option"
  arg_nat_subnets :: "string list option"
  arg_consumer_reject_list :: "string list option"
  arg_consumer_accept_list :: "limit_dict list option"
  arg_remove_obsolete_endpoint_accept_reject_entries :: bool
  arg_reconcile_connections :: "bool option"
  arg_propagated_connection_limit :: "int option"

text \<open>
  The objects that \<open>_Modify\<close> works on: the fetched resource, its copy, the flag
  \<open>is_updated\<close> and the caller's list \<open>cleared_fields\<close>. Each block of \<open>_Modify\<close> is a
  function on this state; a block that can raise also returns the exception, with the
  state at the moment it is raised.
\<close>

record 'a modify_state =
  old_resource :: "'a ServiceAttachment_scheme"
  replacement :: "'a ServiceAttachment_scheme"
  is_updated :: bool
  cleared_fields :: "string list"

definition GetConsumerAcceptList_BasedOnArg ::
  "bool \<Rightarrow> limit_dict list \<Rightarrow> error + ServiceAttachmentConsumerProjectLimit list" where
  "GetConsumerAcceptList_BasedOnArg support_endpoint_based_security_arg consumer_accept_list =
     (if support_endpoint_based_security_arg then
        GetConsumerAcceptListWithEndpointBasedSecurity consumer_accept_list
      else GetConsumerAcceptList consumer_accept_list)"

definition target_service_block :: "Args \<Rightarrow> 'a modify_state \<Rightarrow> 'a modify_state" where
  "target_service_block args st =
     (case arg_target_service args of
        None \<Rightarrow> st
      | Some target_service \<Rightarrow>
          st\<lparr>is_updated := True,
             replacement := (replacement st)\<lparr>targetService := Some target_service\<rparr>\<rparr>)"

definition description_block :: "Args \<Rightarrow> 'a modify_state \<Rightarrow> 'a modify_state" where
  "description_block args st =
     (case arg_description args of
        None \<Rightarrow> st
      | Some d \<Rightarrow>
          if Some d \<noteq> description (old_resource st) then
            st\<lparr>replacement := (replacement st)\<lparr>description := Some d\<rparr>, is_updated := True\<rparr>
          else st)"

definition connection_preference_block :: "Args \<Rightarrow> 'a modify_state \<Rightarrow> 'a modify_state" where
  "connection_preference_block args st =
     (case arg_connection_preference args of
        None \<Rightarrow> st
      | Some cp \<Rightarrow>
          let new_connection_preference = GetConnectionPreference cp in
          if new_connection_preference \<noteq> connectionPreference (old_resource st) then
            st\<lparr>replacement :=
                 (replacement st)\<lparr>connectionPreference := new_connection_preference\<rparr>,
               is_updated := True\<rparr>
          else st)"

definition enable_proxy_protocol_block :: "Args \<Rightarrow> 'a modify_state \<Rightarrow> 'a modify_state" where
  "enable_proxy_protocol_block args st =
     (case arg_enable_proxy_protocol args of
        None \<Rightarrow> st
      | Some b \<Rightarrow>
          if Some b \<noteq> enableProxyProtocol (old_resource st) then
            st\<lparr>replacement := (replacement st)\<lparr>enableProxyProtocol := Some b\<rparr>,
               is_updated := True\<rparr>
          else st)"

definition nat_subnets_block :: "Args \<Rightarrow> 'a modify_state \<Rightarrow> 'a modify_state" where
  "nat_subnets_block args st =
     (case arg_nat_subnets args of
        None \<Rightarrow> st
      | Some subnets \<Rightarrow>
          let new_nat_subnets = sort subnets in
          if (case natSubnets (old_resource st) of
                None \<Rightarrow> True
              | Some old_nat_subnets \<Rightarrow> new_nat_subnets \<noteq> sort old_nat_subnets) then
            st\<lparr>replacement := (replacement st)\<lparr>natSubnets := Some new_nat_subnets\<rparr>,
               is_updated := True\<rparr>
          else st)"

definition consumer_reject_list_block :: "Args \<Rightarrow> 'a modify_state \<Rightarrow> 'a modify_state" where
  "consumer_reject_list_block args st =
     (case arg_consumer_reject_list args of
        None \<Rightarrow> st
      | Some consumer_reject_list \<Rightarrow>
          let new_reject_list = sort consumer_reject_list in
          if (case consumerRejectLists (old_resource st) of
                None \<Rightarrow> True
              | Some old_reject_list \<Rightarrow> new_reject_list \<noteq> sort old_reject_list) then
            st\<lparr>replacement := (replacement st)\<lparr>consumerRejectLists := Some new_reject_list\<rparr>,
               is_updated := True,
               cleared_fields :=
                 (if new_reject_list = [] then cleared_fields st @ [''consumerRejectLists'']
                  else cleared_fields st)\<rparr>
          else st)"

definition accept_list_update ::
  "ServiceAttachmentConsumerProjectLimit list \<Rightarrow> 'a modify_state \<Rightarrow> 'a modify_state" where
  "accept_list_update new_accept_list st =
     st\<lparr>replacement := (replacement st)\<lparr>consumerAcceptLists := Some new_accept_list\<rparr>,
        is_updated := True,
        cleared_fields :=
          (if new_accept_list = [] then cleared_fields st @ [''consumerAcceptLists'']
           else cleared_fields st)\<rparr>"

definition consumer_accept_list_block ::
  "bool \<Rightarrow> Args \<Rightarrow> 'a modify_state \<Rightarrow> (error + unit) \<times> 'a modify_state" where
  "consumer_accept_list_block support_endpoint_based_security_arg args st =
     (case arg_consumer_accept_list args of
        None \<Rightarrow> (Inr (), st)
      | Some dicts \<Rightarrow>
          (case GetConsumerAcceptList_BasedOnArg support_endpoint_based_security_arg dicts of
             Inl e \<Rightarrow> (Inl e, st)
           | Inr consumer_accept_list \<Rightarrow>
               (case py_sorted_key
                       (GetProjectOrNetworkOrEndpointBasedOnArg support_endpoint_based_security_arg)
                       consumer_accept_list of
                  Inl e \<Rightarrow> (Inl e, st)
                | Inr new_accept_list \<Rightarrow>
                    (case consumerAcceptLists (old_resource st) of
                       None \<Rightarrow> (Inr (), accept_list_update new_accept_list st)
                     | Some old_accept_list \<Rightarrow>
                         (case py_sorted_key
                                 (GetProjectOrNetworkOrEndpointBasedOnArg
                                    support_endpoint_based_security_arg)
                                 old_accept_list of
                            Inl e \<Rightarrow> (Inl e, st)
                          | Inr old_sorted \<Rightarrow>
                              if new_accept_list \<noteq> old_sorted then
                                (Inr (), accept_list_update new_accept_list st)
                              else (Inr (), st))))))"

definition remove_obsolete_block ::
  "bool \<Rightarrow> Args \<Rightarrow> 'a modify_state \<Rightarrow> (error + unit) \<times> 'a modify_state" where
  "remove_obsolete_block support_endpoint_based_security_arg args st =
     (if support_endpoint_based_security_arg \<and>
         arg_remove_obsolete_endpoint_accept_reject_entries args then
        if arg_consumer_accept_list args \<noteq> None \<or> arg_consumer_reject_list args \<noteq> None then
          (Inl (ConflictingArgumentsException
             (''--remove-obsolete-endpoint-accept-reject-entries cannot be '' @
              ''specified with --consumer-accept-list or --consumer-reject-list.'')), st)
        else
          (case RemoveObsoleteEndpointEntries (replacement st) (cleared_fields st) of
             (updated, replacement', cleared_fields') \<Rightarrow>
               (Inr (), st\<lparr>is_updated := updated, replacement := replacement',
                           cleared_fields := cleared_fields'\<rparr>))
      else (Inr (), st))"

definition reconcile_connections_block :: "Args \<Rightarrow> 'a modify_state \<Rightarrow> 'a modify_state" where
  "reconcile_connections_block args st =
     (case arg_reconcile_connections args of
        None \<Rightarrow> st
      | Some b \<Rightarrow>
          if Some b \<noteq> reconcileConnections (old_resource st) then
            st\<lparr>replacement := (replacement st)\<lparr>reconcileConnections := Some b\<rparr>,
               is_updated := True\<rparr>
          else st)"

definition propagated_connection_limit_block :: "Args \<Rightarrow> 'a modify_state \<Rightarrow> 'a modify_state" where
  "propagated_connection_limit_block args st =
     (case arg_propagated_connection_limit args of
        None \<Rightarrow> st
      | Some n \<Rightarrow>
          if Some n \<noteq> propagatedConnectionLimit (old_resource st) then
            st\<lparr>replacement := (replacement st)\<lparr>propagatedConnectionLimit := Some n\<rparr>,
               is_updated := True\<rparr>
          else st)"

text \<open>
  \<open>_Modify\<close>: \<open>replacement\<close> starts as a copy of \<open>old_resource\<close>, the blocks run in the
  order of the source, and the result is the replacement when \<open>is_updated\<close> holds and
  \<open>None\<close> otherwise.
\<close>

definition Modify ::
  "bool \<Rightarrow> Args \<Rightarrow> 'a ServiceAttachment_scheme \<Rightarrow> string list \<Rightarrow>
   (error + 'a ServiceAttachment_scheme option) \<times> 'a modify_state" where
  "Modify support_endpoint_based_security_arg args old cleared =
     (let st0 = \<lparr>old_resource = old, replacement = old, is_updated = False,
                 cleared_fields = cleared\<rparr>;
          st1 = target_service_block args st0;
          st2 = description_block args st1;
          st3 = connection_preference_block args st2;
          st4 = enable_proxy_protocol_block args st3;
          st5 = nat_subnets_block args st4;
          st6 = consumer_reject_list_block args st5
      in
        case consumer_accept_list_block support_endpoint_based_security_arg args st6 of
          (Inl e, st7) \<Rightarrow> (Inl e, st7)
        | (Inr u, st7) \<Rightarrow>
            (case remove_obsolete_block support_endpoint_based_security_arg args st7 of
               (Inl e, st8) \<Rightarrow> (Inl e, st8)
             | (Inr v, st8) \<Rightarrow>
                 let st9 = reconcile_connections_block args st8;
                     st10 = propagated_connection_limit_block args st9
                 in (Inr (if is_updated st10 then Some (replacement st10) else None), st10)))"

text \<open>
  \<open>Run\<close>, from the fetched resource on: it returns the fetched resource when \<open>_Modify\<close>
  returns \<open>None\<close>, and otherwise sends the patch request with the replacement and the
  cleared fields.
\<close>

datatype 'a run_result =
    ReturnOldResource "'a ServiceAttachment_scheme"
  | PatchRequest "'a ServiceAttachment_scheme" "string list"

definition Run ::
  "bool \<Rightarrow> Args \<Rightarrow> 'a ServiceAttachment_scheme \<Rightarrow> error + 'a run_result" where
  "Run support_endpoint_based_security_arg args fetched =
     (case Modify support_endpoint_based_security_arg args fetched [] of
        (Inl e, st) \<Rightarrow> Inl e
      | (Inr None, st) \<Rightarrow> Inr (ReturnOldResource (old_resource st))
      | (Inr (Some r), st) \<Rightarrow> Inr (PatchRequest r (cleared_fields st)))"

section \<open>The service-account name hook\<close>

text \<open>
  \<open>hook_service_account\<close> is \<open>Some\<close> of the value when \<open>args.IsSpecified('service_account')\<close>
  holds. The request has the field \<open>apiKey\<close>; \<open>api_key_message_cls\<close> is the message that
  the constructor of \<open>ApiKey\<close> returns.
\<close>

record HookArgs =
  hook_service_account :: "string option"
  hook_project :: "string option"
  hook_location :: "string option"

record ApiKey =
  serviceAccountName :: "string option"

record 'k Request =
  apiKey :: "'k ApiKey_scheme option"

record ('k, 'r) hook_state =
  hook_args :: HookArgs
  hook_request :: "('k, 'r) Request_scheme"

definition project_required :: error where
  "project_required = RequiredArgumentException ''--project'' ''The --project flag is required.''"

definition location_required :: error where
  "location_required =
     RequiredArgumentException ''--location'' ''The --location flag is required.''"

definition ConstructServiceAccountName ::
  "'k ApiKey_scheme \<Rightarrow> ('k, 'r) hook_state \<Rightarrow>
   (error + ('k, 'r) Request_scheme) \<times> ('k, 'r) hook_state" where
  "ConstructServiceAccountName api_key_message_cls st =
     (case hook_service_account (hook_args st) of
        None \<Rightarrow> (Inr (hook_request st), st)
      | Some sa_id \<Rightarrow>
          (case hook_project (hook_args st) of
             None \<Rightarrow> (Inl project_required, st)
           | Some project \<Rightarrow>
               if project = [] then (Inl project_required, st)
               else
                 (case hook_location (hook_args st) of
                    None \<Rightarrow> (Inl location_required, st)
                  | Some location \<Rightarrow>
                      if location = [] then (Inl location_required, st)
                      else
                        let service_account_name =
                              ''projects/'' @ project @ ''/locations/'' @ location @
                              ''/serviceAccounts/'' @ sa_id;
                            api_key =
                              (case apiKey (hook_request st) of
                                 None \<Rightarrow> api_key_message_cls
                               | Some k \<Rightarrow> k);
                            request' =
                              (hook_request st)\<lparr>apiKey :=
                                 Some (api_key\<lparr>serviceAccountName :=
                                         Some service_account_name\<rparr>)\<rparr>
                        in (Inr request',
                            st\<lparr>hook_request := request',
                               hook_args :=
                                 (hook_args st)\<lparr>hook_service_account := None\<rparr>\<rparr>))))"

section \<open>Properties of the accept-list normalizers\<close>

lemma append_entries_append:
  "append_entries body acc (xs @ ys) =
     (case append_entries body acc xs of Inl e \<Rightarrow> Inl e | Inr acc' \<Rightarrow> append_entries body acc' ys)"
  by (induction xs arbitrary: acc) (auto split: sum.splits)

lemma accept_list_loop_concat:
  "accept_list_loop body acc ds = append_entries body acc (concat (map sorted_items ds))"
  by (induction ds arbitrary: acc) (auto simp: append_entries_append split: sum.splits)

lemma append_entries_Inr_iff:
  "append_entries body acc items = Inr out \<longleftrightarrow>
     (\<exists>es. list_all2 (\<lambda>i e. body i = Inr e) items es \<and> out = acc @ es)"
proof (induction items arbitrary: acc)
  case Nil
  then show ?case by auto
next
  case (Cons item items)
  show ?case
  proof (cases "body item")
    case (Inl e)
    then show ?thesis by (auto simp: list_all2_Cons1)
  next
    case (Inr en)
    then show ?thesis using Cons.IH [of "acc @ [en]"]
      by (auto simp: list_all2_Cons1)
  qed
qed

lemma append_entries_Inl_iff:
  "append_entries body acc items = Inl e \<longleftrightarrow>
     (\<exists>pre item post. items = pre @ item # post \<and> (\<forall>i\<in>set pre. \<exists>en. body i = Inr en) \<and>
        body item = Inl e)"
proof (induction items arbitrary: acc)
  case Nil
  then show ?case by simp
next
  case (Cons x items)
  show ?case
  proof (cases "body x")
    case (Inl e')
    have "(\<exists>pre item post. x # items = pre @ item # post \<and>
            (\<forall>i\<in>set pre. \<exists>en. body i = Inr en) \<and> body item = Inl e) \<longleftrightarrow> e' = e"
    proof
      assume "\<exists>pre item post. x # items = pre @ item # post \<and>
            (\<forall>i\<in>set pre. \<exists>en. body i = Inr en) \<and> body item = Inl e"
      then obtain pre item post where d: "x # items = pre @ item # post"
        and p: "\<forall>i\<in>set pre. \<exists>en. body i = Inr en" and b: "body item = Inl e" by blast
      show "e' = e"
      proof (cases pre)
        case Nil
        with d b Inl show ?thesis by simp
      next
        case (Cons y ys)
        with d p Inl show ?thesis by auto
      qed
    next
      assume "e' = e"
      with Inl have "x # items = [] @ x # items \<and> (\<forall>i\<in>set []. \<exists>en. body i = Inr en) \<and> body x = Inl e"
        by simp
      then show "\<exists>pre item post. x # items = pre @ item # post \<and>
            (\<forall>i\<in>set pre. \<exists>en. body i = Inr en) \<and> body item = Inl e" by blast
    qed
    with Inl show ?thesis by auto
  next
    case (Inr en)
    have "(\<exists>pre item post. x # items = pre @ item # post \<and>
            (\<forall>i\<in>set pre. \<exists>en. body i = Inr en) \<and> body item = Inl e) \<longleftrightarrow>
          (\<exists>pre item post. items = pre @ item # post \<and>
            (\<forall>i\<in>set pre. \<exists>en. body i = Inr en) \<and> body item = Inl e)" (is "?L \<longleftrightarrow> ?R")
    proof
      assume ?L
      then obtain pre item post where d: "x # items = pre @ item # post"
        and p: "\<forall>i\<in>set pre. \<exists>en. body i = Inr en" and b: "body item = Inl e" by blast
      show ?R
      proof (cases pre)
        case Nil
        with d b Inr show ?thesis by simp
      next
        case (Cons y ys)
        with d p b have "items = ys @ item # post \<and> (\<forall>i\<in>set ys. \<exists>en. body i = Inr en) \<and> body item = Inl e"
          by simp
        then show ?thesis by blast
      qed
    next
      assume ?R
      then obtain pre item post where d: "items = pre @ item # post"
        and p: "\<forall>i\<in>set pre. \<exists>en. body i = Inr en" and b: "body item = Inl e" by blast
      with Inr have "x # items = (x # pre) @ item # post \<and>
         (\<forall>i\<in>set (x # pre). \<exists>en. body i = Inr en) \<and> body item = Inl e" by simp
      then show ?L by blast
    qed
    with Inr Cons.IH [of "acc @ [en]"] show ?thesis by simp
  qed
qed

lemma sorted_items_dict_eq:
  assumes "distinct (map fst d)" "distinct (map fst d')" "set d = set d'"
  shows "sorted_items d = sorted_items d'"
proof -
  have "distinct d" "distinct d'" using assms(1,2) by (simp_all add: distinct_map)
  then have m: "mset d = mset d'" using assms(3) by (simp add: set_eq_iff_mset_eq_distinct)
  have inj: "inj_on fst (set d)" using assms(1) by (simp add: distinct_map)
  have "sort_key fst d = sort_key fst d'"
    by (rule sort_key_inj_key_eq [OF _ inj]) (simp_all add: m)
  then show ?thesis by (simp add: sorted_items_def)
qed


lemma accept_list_loop_Inr_iff:
  "accept_list_loop body [] ds = Inr out \<longleftrightarrow>
     list_all2 (\<lambda>item entry. body item = Inr entry) (concat (map sorted_items ds)) out"
  by (simp add: accept_list_loop_concat append_entries_Inr_iff)

lemma accept_list_loop_Inl_iff:
  "accept_list_loop body [] ds = Inl e \<longleftrightarrow>
     (\<exists>pre item post. concat (map sorted_items ds) = pre @ item # post \<and>
        (\<forall>i\<in>set pre. \<exists>en. body i = Inr en) \<and> body item = Inl e)"
  by (simp add: accept_list_loop_concat append_entries_Inl_iff)

lemma py_int_not_ValueError: "py_int v \<noteq> Inl (ValueError m)"
  by (simp add: py_int_def split: option.splits)

lemma py_int_digit:
  "py_int (Some ''3'') = Inr 3" "py_int (Some ''5'') = Inr 5" "py_int (Some ''7'') = Inr 7"
  "py_int (Some ''10'') = Inr 10"
  by (simp_all add: py_int_def parse_int_def py_strip_def py_isspace_def is_digit_def
      digit_val_def)

text \<open>
  C7. In the extended form, for one item of an input mapping: a network URL with a
  non-empty limit gives a network entry with the limit as an integer, and with an empty
  limit the error that names the network URL; an endpoint URL (an identifier with the
  endpoint marker that is no network URL) gives an endpoint entry, with the limit when one
  is given and without a limit otherwise; any other identifier with a non-empty limit gives
  a project entry, and with an empty limit the error that names the project. The normalizer
  returns the entries of the items of all mappings in order, or the error of the first
  item that fails.
\<close>

theorem GetConsumerAcceptListWithEndpointBasedSecurity_entries:
  "(str_in ''/networks/'' ident \<and> \<not> py_not lim \<and> py_int lim = Inr n \<longrightarrow>
      accept_entry_ebs (ident, lim) =
        Inr \<lparr>projectIdOrNum = None, networkUrl = Some ident, endpointUrl = None,
             connectionLimit = Some n\<rparr>) \<and>
   (str_in ''/networks/'' ident \<and> py_not lim \<longrightarrow>
      accept_entry_ebs (ident, lim) =
        Inl (ValueError (''Connection limit is required for network URL: '' @ ident))) \<and>
   (\<not> str_in ''/networks/'' ident \<and> str_in ''/forwardingRules/'' ident \<and> \<not> py_not lim \<and>
      py_int lim = Inr n \<longrightarrow>
      accept_entry_ebs (ident, lim) =
        Inr \<lparr>projectIdOrNum = None, networkUrl = None, endpointUrl = Some ident,
             connectionLimit = Some n\<rparr>) \<and>
   (\<not> str_in ''/networks/'' ident \<and> str_in ''/forwardingRules/'' ident \<and> py_not lim \<longrightarrow>
      accept_entry_ebs (ident, lim) =
        Inr \<lparr>projectIdOrNum = None, networkUrl = None, endpointUrl = Some ident,
             connectionLimit = None\<rparr>) \<and>
   (\<not> str_in ''/networks/'' ident \<and> \<not> str_in ''/forwardingRules/'' ident \<and> \<not> py_not lim \<and>
      py_int lim = Inr n \<longrightarrow>
      accept_entry_ebs (ident, lim) =
        Inr \<lparr>projectIdOrNum = Some ident, networkUrl = None, endpointUrl = None,
             connectionLimit = Some n\<rparr>) \<and>
   (\<not> str_in ''/networks/'' ident \<and> \<not> str_in ''/forwardingRules/'' ident \<and> py_not lim \<longrightarrow>
      accept_entry_ebs (ident, lim) =
        Inl (ValueError (''Connection limit is required for project ID or number: '' @ ident))) \<and>
   (GetConsumerAcceptListWithEndpointBasedSecurity ds = Inr out \<longleftrightarrow>
      list_all2 (\<lambda>item entry. accept_entry_ebs item = Inr entry)
        (concat (map sorted_items ds)) out) \<and>
   (GetConsumerAcceptListWithEndpointBasedSecurity ds = Inl e \<longleftrightarrow>
      (\<exists>pre item post. concat (map sorted_items ds) = pre @ item # post \<and>
         (\<forall>i\<in>set pre. \<exists>en. accept_entry_ebs i = Inr en) \<and> accept_entry_ebs item = Inl e))"
proof -
  have whole_ok: "GetConsumerAcceptListWithEndpointBasedSecurity ds = Inr out \<longleftrightarrow>
      list_all2 (\<lambda>item entry. accept_entry_ebs item = Inr entry)
        (concat (map sorted_items ds)) out"
    unfolding GetConsumerAcceptListWithEndpointBasedSecurity_def
    by (rule accept_list_loop_Inr_iff)
  have whole_err: "GetConsumerAcceptListWithEndpointBasedSecurity ds = Inl e \<longleftrightarrow>
      (\<exists>pre item post. concat (map sorted_items ds) = pre @ item # post \<and>
         (\<forall>i\<in>set pre. \<exists>en. accept_entry_ebs i = Inr en) \<and> accept_entry_ebs item = Inl e)"
    unfolding GetConsumerAcceptListWithEndpointBasedSecurity_def
    by (rule accept_list_loop_Inl_iff)
  show ?thesis
    unfolding whole_ok whole_err
    by (simp add: accept_entry_ebs_def empty_limit_def)
qed

theorem GetConsumerAcceptListWithEndpointBasedSecurity_entries_witness:
  "GetConsumerAcceptListWithEndpointBasedSecurity
     [[(''p/regions/r/forwardingRules/e1'', None)],
      [(''p/regions/r/forwardingRules/e1'', Some ''5'')],
      [(''projects/p1'', Some ''7''), (''p/global/networks/n1'', Some ''3'')]] =
   Inr [\<lparr>projectIdOrNum = None, networkUrl = None,
          endpointUrl = Some ''p/regions/r/forwardingRules/e1'', connectionLimit = None\<rparr>,
        \<lparr>projectIdOrNum = None, networkUrl = None,
          endpointUrl = Some ''p/regions/r/forwardingRules/e1'', connectionLimit = Some 5\<rparr>,
        \<lparr>projectIdOrNum = None, networkUrl = Some ''p/global/networks/n1'',
          endpointUrl = None, connectionLimit = Some 3\<rparr>,
        \<lparr>projectIdOrNum = Some ''projects/p1'', networkUrl = None,
          endpointUrl = None, connectionLimit = Some 7\<rparr>] \<and>
   GetConsumerAcceptListWithEndpointBasedSecurity [[(''p/global/networks/n1'', None)]] =
     Inl (ValueError ''Connection limit is required for network URL: p/global/networks/n1'') \<and>
   GetConsumerAcceptListWithEndpointBasedSecurity [[(''projects/p1'', Some [])]] =
     Inl (ValueError ''Connection limit is required for project ID or number: projects/p1'')"
proof -
  let ?e = "''p/regions/r/forwardingRules/e1''"
  let ?n = "''p/global/networks/n1''"
  let ?p = "''projects/p1''"
  let ?ds = "[[(?e, None)], [(?e, Some ''5'')], [(?p, Some ''7''), (?n, Some ''3'')]]"
  let ?en = "ValueError ''Connection limit is required for network URL: p/global/networks/n1''"
  let ?ep = "ValueError ''Connection limit is required for project ID or number: projects/p1''"
  note T = GetConsumerAcceptListWithEndpointBasedSecurity_entries
  have s1: "concat (map sorted_items ?ds) =
            [(?e, None), (?e, Some ''5''), (?n, Some ''3''), (?p, Some ''7'')]"
    by (simp add: sorted_items_def)
  have s2: "concat (map sorted_items [[(?n, None :: string option)]]) = [] @ (?n, None) # []"
    and s3: "concat (map sorted_items [[(?p, Some [])]]) = [] @ (?p, Some []) # []"
    by (simp_all add: sorted_items_def)
  have e1: "accept_entry_ebs (?e, None) = Inr \<lparr>projectIdOrNum = None, networkUrl = None,
          endpointUrl = Some ?e, connectionLimit = None\<rparr>"
    using T [of ?e None, THEN conjunct2, THEN conjunct2, THEN conjunct2, THEN conjunct1]
    by (simp add: py_not_def)
  have e2: "accept_entry_ebs (?e, Some ''5'') = Inr \<lparr>projectIdOrNum = None, networkUrl = None,
          endpointUrl = Some ?e, connectionLimit = Some 5\<rparr>"
    using T [of ?e "Some ''5''" 5, THEN conjunct2, THEN conjunct2, THEN conjunct1]
    by (simp add: py_not_def py_int_digit)
  have e3: "accept_entry_ebs (?n, Some ''3'') = Inr \<lparr>projectIdOrNum = None,
          networkUrl = Some ?n, endpointUrl = None, connectionLimit = Some 3\<rparr>"
    using T [of ?n "Some ''3''" 3, THEN conjunct1]
    by (simp add: py_not_def py_int_digit)
  have e4: "accept_entry_ebs (?p, Some ''7'') = Inr \<lparr>projectIdOrNum = Some ?p,
          networkUrl = None, endpointUrl = None, connectionLimit = Some 7\<rparr>"
    using T [of ?p "Some ''7''" 7, THEN conjunct2, THEN conjunct2, THEN conjunct2,
        THEN conjunct2, THEN conjunct1]
    by (simp add: py_not_def py_int_digit)
  have e5: "accept_entry_ebs (?n, None) = Inl ?en"
    using T [of ?n None, THEN conjunct2, THEN conjunct1]
    by (simp add: py_not_def)
  have e6: "accept_entry_ebs (?p, Some []) = Inl ?ep"
    using T [of ?p "Some []", THEN conjunct2, THEN conjunct2, THEN conjunct2, THEN conjunct2,
        THEN conjunct2, THEN conjunct1]
    by (simp add: py_not_def)
  have w1: "GetConsumerAcceptListWithEndpointBasedSecurity ?ds =
     Inr [\<lparr>projectIdOrNum = None, networkUrl = None,
          endpointUrl = Some ?e, connectionLimit = None\<rparr>,
        \<lparr>projectIdOrNum = None, networkUrl = None,
          endpointUrl = Some ?e, connectionLimit = Some 5\<rparr>,
        \<lparr>projectIdOrNum = None, networkUrl = Some ?n,
          endpointUrl = None, connectionLimit = Some 3\<rparr>,
        \<lparr>projectIdOrNum = Some ?p, networkUrl = None,
          endpointUrl = None, connectionLimit = Some 7\<rparr>]"
    by (rule T [where ds = ?ds, THEN conjunct2, THEN conjunct2, THEN conjunct2, THEN conjunct2,
          THEN conjunct2, THEN conjunct2, THEN conjunct1, THEN iffD2])
       (simp only: s1 list_all2_Cons list.rel_inject list_all2_Nil e1 e2 e3 e4 simp_thms)
  have x2: "\<exists>pre item post. concat (map sorted_items [[(?n, None :: string option)]]) =
         pre @ item # post \<and>
         (\<forall>i\<in>set pre. \<exists>en. accept_entry_ebs i = Inr en) \<and> accept_entry_ebs item = Inl ?en"
    by (rule exI [of _ "[]"], rule exI [of _ "(?n, None)"], rule exI [of _ "[]"])
       (simp only: s2 e5 simp_thms list.set ball_empty)
  have w2: "GetConsumerAcceptListWithEndpointBasedSecurity [[(?n, None)]] = Inl ?en"
    by (rule T [where ds = "[[(?n, None)]]", THEN conjunct2, THEN conjunct2, THEN conjunct2,
          THEN conjunct2, THEN conjunct2, THEN conjunct2, THEN conjunct2, THEN iffD2])
       (rule x2)
  have x3: "\<exists>pre item post. concat (map sorted_items [[(?p, Some [])]]) =
         pre @ item # post \<and>
         (\<forall>i\<in>set pre. \<exists>en. accept_entry_ebs i = Inr en) \<and> accept_entry_ebs item = Inl ?ep"
    by (rule exI [of _ "[]"], rule exI [of _ "(?p, Some [])"], rule exI [of _ "[]"])
       (simp only: s3 e6 simp_thms list.set ball_empty)
  have w3: "GetConsumerAcceptListWithEndpointBasedSecurity [[(?p, Some [])]] = Inl ?ep"
    by (rule T [where ds = "[[(?p, Some [])]]", THEN conjunct2, THEN conjunct2, THEN conjunct2,
          THEN conjunct2, THEN conjunct2, THEN conjunct2, THEN conjunct2, THEN iffD2])
       (rule x3)
  from w1 w2 w3 show ?thesis by (intro conjI)
qed

lemma sorted_items_sorted: "sorted (map fst (sorted_items d))"
  by (simp add: sorted_items_def)

lemma sorted_items_mset: "mset (sorted_items d) = mset d"
  by (simp add: sorted_items_def)

lemma sorted_items_set: "set (sorted_items d) = set d"
  by (simp add: sorted_items_def)

lemma sorted_items_stable:
  "filter (\<lambda>item. fst item = k) (sorted_items d) = filter (\<lambda>item. fst item = k) d"
  by (simp add: sorted_items_def sort_key_stable)

lemma accept_list_loop_dict_eq:
  assumes "list_all2 (\<lambda>d d'. distinct (map fst d) \<and> distinct (map fst d') \<and> set d = set d') ds ds'"
  shows "accept_list_loop body acc ds = accept_list_loop body acc ds'"
  using assms
proof (induction ds ds' arbitrary: acc rule: list_all2_induct)
  case Nil
  show ?case by simp
next
  case (Cons d ds d' ds')
  then have "sorted_items d = sorted_items d'" by (simp add: sorted_items_dict_eq)
  with Cons.IH show ?case by (simp split: sum.splits)
qed

lemma accept_entry_network:
  "str_in ''/networks/'' ident \<Longrightarrow>
     accept_entry (ident, lim) =
       (case py_int lim of
          Inl e \<Rightarrow> Inl e
        | Inr n \<Rightarrow> Inr \<lparr>projectIdOrNum = None, networkUrl = Some ident, endpointUrl = None,
                         connectionLimit = Some n\<rparr>)"
  by (simp add: accept_entry_def empty_limit_def split: sum.splits)

lemma accept_entry_endpoint:
  "\<not> str_in ''/networks/'' ident \<Longrightarrow> str_in ''/forwardingRules/'' ident \<Longrightarrow>
     accept_entry (ident, lim) =
       Inl (ValueError
         ''Private Service Connect Endpoint URL is not supported for consumer accept list'')"
  by (simp add: accept_entry_def)

lemma accept_entry_project:
  "\<not> str_in ''/networks/'' ident \<Longrightarrow> \<not> str_in ''/forwardingRules/'' ident \<Longrightarrow>
     accept_entry (ident, lim) =
       (case py_int lim of
          Inl e \<Rightarrow> Inl e
        | Inr n \<Rightarrow> Inr \<lparr>projectIdOrNum = Some ident, networkUrl = None, endpointUrl = None,
                         connectionLimit = Some n\<rparr>)"
  by (simp add: accept_entry_def empty_limit_def split: sum.splits)

lemma accept_entry_ebs_network:
  "str_in ''/networks/'' ident \<Longrightarrow>
     accept_entry_ebs (ident, lim) =
       (if py_not lim then
          Inl (ValueError (''Connection limit is required for network URL: '' @ ident))
        else
          (case py_int lim of
             Inl e \<Rightarrow> Inl e
           | Inr n \<Rightarrow> Inr \<lparr>projectIdOrNum = None, networkUrl = Some ident, endpointUrl = None,
                            connectionLimit = Some n\<rparr>))"
  by (simp add: accept_entry_ebs_def empty_limit_def split: sum.splits)

lemma accept_entry_unsupported_iff:
  "accept_entry (ident, lim) =
     Inl (ValueError
       ''Private Service Connect Endpoint URL is not supported for consumer accept list'') \<longleftrightarrow>
   \<not> str_in ''/networks/'' ident \<and> str_in ''/forwardingRules/'' ident"
proof (cases "str_in ''/networks/'' ident")
  case True
  then show ?thesis
    using py_int_not_ValueError [of lim]
    by (auto simp: accept_entry_network split: sum.splits)
next
  case False
  show ?thesis
  proof (cases "str_in ''/forwardingRules/'' ident")
    case True
    with False show ?thesis by (simp add: accept_entry_endpoint)
  next
    case no: False
    with False show ?thesis
      using py_int_not_ValueError [of lim]
      by (auto simp: accept_entry_project split: sum.splits)
  qed
qed

text \<open>
  C8. In the basic form, for one item of an input mapping: a network URL gives a network
  entry with the limit as an integer; an endpoint URL (an identifier with the endpoint
  marker that is no network URL) raises the error that endpoint URLs are not supported;
  any other identifier gives a project entry with the limit as an integer. The normalizer
  returns the entries of the items of all mappings in order, or the error of the first
  item that fails. The items of a mapping are taken in ascending order of their
  identifiers, the order is a stable rearrangement of the items, and the result does not
  depend on the order in which the mappings hold their items.
\<close>

theorem GetConsumerAcceptList_entries:
  "(str_in ''/networks/'' ident \<and> py_int lim = Inr n \<longrightarrow>
      accept_entry (ident, lim) =
        Inr \<lparr>projectIdOrNum = None, networkUrl = Some ident, endpointUrl = None,
             connectionLimit = Some n\<rparr>) \<and>
   (\<not> str_in ''/networks/'' ident \<and> str_in ''/forwardingRules/'' ident \<longrightarrow>
      accept_entry (ident, lim) =
        Inl (ValueError
          ''Private Service Connect Endpoint URL is not supported for consumer accept list'')) \<and>
   (\<not> str_in ''/networks/'' ident \<and> \<not> str_in ''/forwardingRules/'' ident \<and>
      py_int lim = Inr n \<longrightarrow>
      accept_entry (ident, lim) =
        Inr \<lparr>projectIdOrNum = Some ident, networkUrl = None, endpointUrl = None,
             connectionLimit = Some n\<rparr>) \<and>
   (GetConsumerAcceptList ds = Inr out \<longleftrightarrow>
      list_all2 (\<lambda>item entry. accept_entry item = Inr entry)
        (concat (map sorted_items ds)) out) \<and>
   (GetConsumerAcceptList ds = Inl e \<longleftrightarrow>
      (\<exists>pre item post. concat (map sorted_items ds) = pre @ item # post \<and>
         (\<forall>i\<in>set pre. \<exists>en. accept_entry i = Inr en) \<and> accept_entry item = Inl e)) \<and>
   sorted (map fst (sorted_items d)) \<and>
   mset (sorted_items d) = mset d \<and>
   filter (\<lambda>item. fst item = k) (sorted_items d) = filter (\<lambda>item. fst item = k) d \<and>
   (list_all2 (\<lambda>d d'. distinct (map fst d) \<and> distinct (map fst d') \<and> set d = set d') ds ds' \<longrightarrow>
      GetConsumerAcceptList ds = GetConsumerAcceptList ds')"
proof -
  have whole_ok: "GetConsumerAcceptList ds = Inr out \<longleftrightarrow>
      list_all2 (\<lambda>item entry. accept_entry item = Inr entry)
        (concat (map sorted_items ds)) out"
    unfolding GetConsumerAcceptList_def by (rule accept_list_loop_Inr_iff)
  have whole_err: "GetConsumerAcceptList ds = Inl e \<longleftrightarrow>
      (\<exists>pre item post. concat (map sorted_items ds) = pre @ item # post \<and>
         (\<forall>i\<in>set pre. \<exists>en. accept_entry i = Inr en) \<and> accept_entry item = Inl e)"
    unfolding GetConsumerAcceptList_def by (rule accept_list_loop_Inl_iff)
  have det: "list_all2 (\<lambda>d d'. distinct (map fst d) \<and> distinct (map fst d') \<and> set d = set d') ds ds' \<longrightarrow>
      GetConsumerAcceptList ds = GetConsumerAcceptList ds'"
    unfolding GetConsumerAcceptList_def by (simp add: accept_list_loop_dict_eq)
  have items: "(str_in ''/networks/'' ident \<and> py_int lim = Inr n \<longrightarrow>
      accept_entry (ident, lim) =
        Inr \<lparr>projectIdOrNum = None, networkUrl = Some ident, endpointUrl = None,
             connectionLimit = Some n\<rparr>) \<and>
   (\<not> str_in ''/networks/'' ident \<and> str_in ''/forwardingRules/'' ident \<longrightarrow>
      accept_entry (ident, lim) =
        Inl (ValueError
          ''Private Service Connect Endpoint URL is not supported for consumer accept list'')) \<and>
   (\<not> str_in ''/networks/'' ident \<and> \<not> str_in ''/forwardingRules/'' ident \<and>
      py_int lim = Inr n \<longrightarrow>
      accept_entry (ident, lim) =
        Inr \<lparr>projectIdOrNum = Some ident, networkUrl = None, endpointUrl = None,
             connectionLimit = Some n\<rparr>)"
    by (simp add: accept_entry_network accept_entry_endpoint accept_entry_project)
  from items whole_ok whole_err det show ?thesis
    using sorted_items_sorted [of d] sorted_items_mset [of d] sorted_items_stable [of k d]
    by blast
qed

theorem GetConsumerAcceptList_entries_witness:
  "GetConsumerAcceptList [[(''projects/p1'', Some ''10'')]] =
     Inr [\<lparr>projectIdOrNum = Some ''projects/p1'', networkUrl = None, endpointUrl = None,
           connectionLimit = Some 10\<rparr>] \<and>
   GetConsumerAcceptList [[(''p/regions/r/forwardingRules/e1'', Some ''5'')]] =
     Inl (ValueError
       ''Private Service Connect Endpoint URL is not supported for consumer accept list'') \<and>
   GetConsumerAcceptList [[(''projects/p1'', Some ''7''), (''p/global/networks/n1'', Some ''3'')]] =
     GetConsumerAcceptList [[(''p/global/networks/n1'', Some ''3''), (''projects/p1'', Some ''7'')]]"
proof -
  let ?e = "''p/regions/r/forwardingRules/e1''"
  let ?n = "''p/global/networks/n1''"
  let ?p = "''projects/p1''"
  let ?err = "ValueError
       ''Private Service Connect Endpoint URL is not supported for consumer accept list''"
  note T = GetConsumerAcceptList_entries
  have s1: "concat (map sorted_items [[(?p, Some ''10'')]]) = [(?p, Some ''10'')]"
    by (simp add: sorted_items_def)
  have s2: "concat (map sorted_items [[(?e, Some ''5'')]]) = [] @ (?e, Some ''5'') # []"
    by (simp add: sorted_items_def)
  have e1: "accept_entry (?p, Some ''10'') = Inr \<lparr>projectIdOrNum = Some ?p, networkUrl = None,
          endpointUrl = None, connectionLimit = Some 10\<rparr>"
    using T [of ?p "Some ''10''" 10, THEN conjunct2, THEN conjunct2, THEN conjunct1]
    by (simp add: py_int_digit)
  have e2: "accept_entry (?e, Some ''5'') = Inl ?err"
    using T [of ?e "Some ''5''", THEN conjunct2, THEN conjunct1]
    by simp
  have r1: "GetConsumerAcceptList [[(?p, Some ''10'')]] =
     Inr [\<lparr>projectIdOrNum = Some ?p, networkUrl = None, endpointUrl = None,
           connectionLimit = Some 10\<rparr>]"
    by (rule T [where ds = "[[(?p, Some ''10'')]]", THEN conjunct2, THEN conjunct2,
          THEN conjunct2, THEN conjunct1, THEN iffD2])
       (simp only: s1, simp add: e1)
  have r2: "GetConsumerAcceptList [[(?e, Some ''5'')]] = Inl ?err"
    apply (rule T [where ds = "[[(?e, Some ''5'')]]", THEN conjunct2, THEN conjunct2,
          THEN conjunct2, THEN conjunct2, THEN conjunct1, THEN iffD2])
    apply (rule exI [of _ "[]"])
    apply (rule exI [of _ "(?e, Some ''5'')"])
    apply (rule exI [of _ "[]"])
    apply (simp only: s2 e2)
    apply simp
    done
  have r3: "GetConsumerAcceptList [[(?p, Some ''7''), (?n, Some ''3'')]] =
     GetConsumerAcceptList [[(?n, Some ''3''), (?p, Some ''7'')]]"
    by (rule T [where ds = "[[(?p, Some ''7''), (?n, Some ''3'')]]"
            and ds' = "[[(?n, Some ''3''), (?p, Some ''7'')]]",
          THEN conjunct2, THEN conjunct2, THEN conjunct2, THEN conjunct2, THEN conjunct2,
          THEN conjunct2, THEN conjunct2, THEN conjunct2, THEN mp])
       (simp, blast)
  from r1 r2 r3 show ?thesis by blast
qed

text \<open>
  C10. In both forms an identifier that has the network marker and the endpoint marker is
  treated as a network URL: the basic form gives the network entry with the limit as an
  integer (or the error of the conversion of the limit), and never the error that endpoint
  URLs are not supported; the extended form requires the limit as it does for a network
  URL. The basic form raises the error that endpoint URLs are not supported only for an
  identifier that has the endpoint marker and not the network marker.
\<close>

theorem network_check_precedes_endpoint_check:
  "(str_in ''/networks/'' ident \<and> str_in ''/forwardingRules/'' ident \<longrightarrow>
      accept_entry (ident, lim) =
        (case py_int lim of
           Inl e \<Rightarrow> Inl e
         | Inr n \<Rightarrow> Inr \<lparr>projectIdOrNum = None, networkUrl = Some ident, endpointUrl = None,
                          connectionLimit = Some n\<rparr>) \<and>
      accept_entry (ident, lim) \<noteq>
        Inl (ValueError
          ''Private Service Connect Endpoint URL is not supported for consumer accept list'') \<and>
      accept_entry_ebs (ident, lim) =
        (if py_not lim then
           Inl (ValueError (''Connection limit is required for network URL: '' @ ident))
         else
           (case py_int lim of
              Inl e \<Rightarrow> Inl e
            | Inr n \<Rightarrow> Inr \<lparr>projectIdOrNum = None, networkUrl = Some ident,
                             endpointUrl = None, connectionLimit = Some n\<rparr>))) \<and>
   ((\<forall>d\<in>set ds. \<forall>item\<in>set d.
        str_in ''/forwardingRules/'' (fst item) \<longrightarrow> str_in ''/networks/'' (fst item)) \<longrightarrow>
      GetConsumerAcceptList ds \<noteq>
        Inl (ValueError
          ''Private Service Connect Endpoint URL is not supported for consumer accept list''))"
proof -
  let ?err = "ValueError
          ''Private Service Connect Endpoint URL is not supported for consumer accept list''"
  have whole: "GetConsumerAcceptList ds \<noteq> Inl ?err"
    if h: "\<forall>d\<in>set ds. \<forall>item\<in>set d.
        str_in ''/forwardingRules/'' (fst item) \<longrightarrow> str_in ''/networks/'' (fst item)"
  proof
    assume "GetConsumerAcceptList ds = Inl ?err"
    then obtain pre item post where
      c: "concat (map sorted_items ds) = pre @ item # post" and b: "accept_entry item = Inl ?err"
      unfolding GetConsumerAcceptList_def accept_list_loop_Inl_iff by blast
    have "item \<in> set (concat (map sorted_items ds))" by (simp add: c)
    then obtain d where d: "d \<in> set ds" "item \<in> set d"
      by (auto simp: sorted_items_set)
    obtain ident lim where item: "item = (ident, lim)" by (cases item)
    from b item have m: "\<not> str_in ''/networks/'' ident \<and> str_in ''/forwardingRules/'' ident"
      by (simp add: accept_entry_unsupported_iff)
    from h d have "str_in ''/forwardingRules/'' (fst item) \<longrightarrow> str_in ''/networks/'' (fst item)"
      by blast
    with m item show False by simp
  qed
  have one: "str_in ''/networks/'' ident \<and> str_in ''/forwardingRules/'' ident \<longrightarrow>
      accept_entry (ident, lim) =
        (case py_int lim of
           Inl e \<Rightarrow> Inl e
         | Inr n \<Rightarrow> Inr \<lparr>projectIdOrNum = None, networkUrl = Some ident, endpointUrl = None,
                          connectionLimit = Some n\<rparr>) \<and>
      accept_entry (ident, lim) \<noteq> Inl ?err \<and>
      accept_entry_ebs (ident, lim) =
        (if py_not lim then
           Inl (ValueError (''Connection limit is required for network URL: '' @ ident))
         else
           (case py_int lim of
              Inl e \<Rightarrow> Inl e
            | Inr n \<Rightarrow> Inr \<lparr>projectIdOrNum = None, networkUrl = Some ident,
                             endpointUrl = None, connectionLimit = Some n\<rparr>))"
  proof
    assume m: "str_in ''/networks/'' ident \<and> str_in ''/forwardingRules/'' ident"
    have n1: "accept_entry (ident, lim) \<noteq> Inl ?err"
      using m by (simp only: accept_entry_unsupported_iff) simp
    from m n1 accept_entry_network [of ident lim] accept_entry_ebs_network [of ident lim]
    show "accept_entry (ident, lim) =
        (case py_int lim of
           Inl e \<Rightarrow> Inl e
         | Inr n \<Rightarrow> Inr \<lparr>projectIdOrNum = None, networkUrl = Some ident, endpointUrl = None,
                          connectionLimit = Some n\<rparr>) \<and>
      accept_entry (ident, lim) \<noteq> Inl ?err \<and>
      accept_entry_ebs (ident, lim) =
        (if py_not lim then
           Inl (ValueError (''Connection limit is required for network URL: '' @ ident))
         else
           (case py_int lim of
              Inl e \<Rightarrow> Inl e
            | Inr n \<Rightarrow> Inr \<lparr>projectIdOrNum = None, networkUrl = Some ident,
                             endpointUrl = None, connectionLimit = Some n\<rparr>))"
      by blast
  qed
  from one whole show ?thesis by blast
qed

theorem network_check_precedes_endpoint_check_witness:
  "accept_entry (''p/global/networks/n/forwardingRules/e'', Some ''3'') =
     Inr \<lparr>projectIdOrNum = None, networkUrl = Some ''p/global/networks/n/forwardingRules/e'',
          endpointUrl = None, connectionLimit = Some 3\<rparr> \<and>
   accept_entry_ebs (''p/global/networks/n/forwardingRules/e'', None) =
     Inl (ValueError
       ''Connection limit is required for network URL: p/global/networks/n/forwardingRules/e'') \<and>
   GetConsumerAcceptList [[(''p/global/networks/n/forwardingRules/e'', Some ''3'')]] \<noteq>
     Inl (ValueError
       ''Private Service Connect Endpoint URL is not supported for consumer accept list'')"
proof -
  let ?b = "''p/global/networks/n/forwardingRules/e''"
  note T = network_check_precedes_endpoint_check
  have m: "str_in ''/networks/'' ?b \<and> str_in ''/forwardingRules/'' ?b" by simp
  have a1: "accept_entry (?b, Some ''3'') =
     Inr \<lparr>projectIdOrNum = None, networkUrl = Some ?b, endpointUrl = None,
          connectionLimit = Some 3\<rparr>"
    using T [of ?b "Some ''3''", THEN conjunct1, THEN mp, OF m, THEN conjunct1]
    by (simp add: py_int_digit)
  have a2: "accept_entry_ebs (?b, None) =
     Inl (ValueError
       ''Connection limit is required for network URL: p/global/networks/n/forwardingRules/e'')"
    using T [of ?b None, THEN conjunct1, THEN mp, OF m, THEN conjunct2, THEN conjunct2]
    by (simp add: py_not_def)
  have a3: "GetConsumerAcceptList [[(?b, Some ''3'')]] \<noteq>
     Inl (ValueError
       ''Private Service Connect Endpoint URL is not supported for consumer accept list'')"
    by (rule T [where ds = "[[(?b, Some ''3'')]]", THEN conjunct2, THEN mp]) simp
  from a1 a2 a3 show ?thesis by blast
qed

section \<open>Properties of the pruning passes\<close>

lemma filter_length_eq_iff: "length (filter P xs) = length xs \<longleftrightarrow> (\<forall>x\<in>set xs. P x)"
  by (metis filter_id_conv length_filter_less less_irrefl)

lemma CleanObsoleteAcceptedEndpointUrls_eq:
  "CleanObsoleteAcceptedEndpointUrls sa ids cleared =
     (let old_list = (case consumerAcceptLists sa of None \<Rightarrow> [] | Some l \<Rightarrow> l);
          kept = filter (accepted_entry_kept ids) old_list;
          changed = (length kept \<noteq> length old_list)
      in (changed,
          if old_list = [] then sa else sa\<lparr>consumerAcceptLists := Some kept\<rparr>,
          if \<not> changed then cleared
          else if kept = [] then
            (if ''consumerAcceptLists'' \<in> set cleared then cleared
             else cleared @ [''consumerAcceptLists''])
          else remove1 ''consumerAcceptLists'' cleared))"
  by (simp add: CleanObsoleteAcceptedEndpointUrls_def Let_def remove1_idem
      split: option.splits)

lemma CleanObsoleteRejectedEndpointUrls_eq:
  "CleanObsoleteRejectedEndpointUrls sa ids cleared =
     (let old_list = (case consumerRejectLists sa of None \<Rightarrow> [] | Some l \<Rightarrow> l);
          kept = filter (rejected_entry_kept ids) old_list;
          changed = (length kept \<noteq> length old_list)
      in (changed,
          if old_list = [] then sa else sa\<lparr>consumerRejectLists := Some kept\<rparr>,
          if \<not> changed then cleared
          else if kept = [] then
            (if ''consumerRejectLists'' \<in> set cleared then cleared
             else cleared @ [''consumerRejectLists''])
          else remove1 ''consumerRejectLists'' cleared))"
  by (simp add: CleanObsoleteRejectedEndpointUrls_def Let_def remove1_idem
      split: option.splits)

text \<open>
  C4. Each pruning pass, on a service attachment, a set of connected-endpoint IDs and a
  list of cleared fields: the list it leaves is the old list filtered by the keep
  predicate, in the old order (an unset list counts as empty and is left as it is); an
  accept entry without an endpoint URL and a reject entry without the endpoint marker are
  kept, any other entry is kept exactly when its trailing identifier is connected. The
  pass returns false exactly when the length is unchanged, which is when every entry is
  kept, and then the cleared fields are unchanged. When it returns true and the new list
  is empty, the field name is in the cleared fields, appended once at the end if it was not
  there; when it returns true and the new list is not empty, the first occurrence of the
  field name is removed, so that a name that occurred once is gone.
\<close>

theorem CleanObsolete_pruning:
  "(CleanObsoleteAcceptedEndpointUrls sa ids cleared = (changed, sa', cleared') \<and>
    old_list = (case consumerAcceptLists sa of None \<Rightarrow> [] | Some l \<Rightarrow> l) \<and>
    kept = filter (accepted_entry_kept ids) old_list \<longrightarrow>
      sa' = (if old_list = [] then sa else sa\<lparr>consumerAcceptLists := Some kept\<rparr>) \<and>
      (changed \<longleftrightarrow> length kept \<noteq> length old_list) \<and>
      (changed \<longleftrightarrow> (\<exists>entry\<in>set old_list. \<not> accepted_entry_kept ids entry)) \<and>
      (\<not> changed \<longrightarrow> cleared' = cleared) \<and>
      (changed \<and> kept = [] \<longrightarrow>
         cleared' = (if ''consumerAcceptLists'' \<in> set cleared then cleared
                     else cleared @ [''consumerAcceptLists''])) \<and>
      (changed \<and> kept = [] \<and> ''consumerAcceptLists'' \<notin> set cleared \<longrightarrow>
         count_list cleared' ''consumerAcceptLists'' = 1) \<and>
      (changed \<and> kept \<noteq> [] \<longrightarrow> cleared' = remove1 ''consumerAcceptLists'' cleared) \<and>
      (changed \<and> kept \<noteq> [] \<and> distinct cleared \<longrightarrow>
         ''consumerAcceptLists'' \<notin> set cleared')) \<and>
   (CleanObsoleteRejectedEndpointUrls ra ids rcleared = (rchanged, ra', rcleared') \<and>
    rold_list = (case consumerRejectLists ra of None \<Rightarrow> [] | Some l \<Rightarrow> l) \<and>
    rkept = filter (rejected_entry_kept ids) rold_list \<longrightarrow>
      ra' = (if rold_list = [] then ra else ra\<lparr>consumerRejectLists := Some rkept\<rparr>) \<and>
      (rchanged \<longleftrightarrow> length rkept \<noteq> length rold_list) \<and>
      (rchanged \<longleftrightarrow> (\<exists>entry\<in>set rold_list. \<not> rejected_entry_kept ids entry)) \<and>
      (\<not> rchanged \<longrightarrow> rcleared' = rcleared) \<and>
      (rchanged \<and> rkept = [] \<longrightarrow>
         rcleared' = (if ''consumerRejectLists'' \<in> set rcleared then rcleared
                      else rcleared @ [''consumerRejectLists''])) \<and>
      (rchanged \<and> rkept = [] \<and> ''consumerRejectLists'' \<notin> set rcleared \<longrightarrow>
         count_list rcleared' ''consumerRejectLists'' = 1) \<and>
      (rchanged \<and> rkept \<noteq> [] \<longrightarrow> rcleared' = remove1 ''consumerRejectLists'' rcleared) \<and>
      (rchanged \<and> rkept \<noteq> [] \<and> distinct rcleared \<longrightarrow>
         ''consumerRejectLists'' \<notin> set rcleared')) \<and>
   (accepted_entry_kept ids entry \<longleftrightarrow>
      endpointUrl entry = None \<or> endpointUrl entry = Some [] \<or>
      (\<exists>url. endpointUrl entry = Some url \<and> trailing_id url \<in> ids)) \<and>
   (rejected_entry_kept ids rentry \<longleftrightarrow>
      \<not> str_in ''/forwardingRules/'' rentry \<or> trailing_id rentry \<in> ids)"
proof -
  have acc: "sa' = (if old_list = [] then sa else sa\<lparr>consumerAcceptLists := Some kept\<rparr>) \<and>
      (changed \<longleftrightarrow> length kept \<noteq> length old_list) \<and>
      (changed \<longleftrightarrow> (\<exists>entry\<in>set old_list. \<not> accepted_entry_kept ids entry)) \<and>
      (\<not> changed \<longrightarrow> cleared' = cleared) \<and>
      (changed \<and> kept = [] \<longrightarrow>
         cleared' = (if ''consumerAcceptLists'' \<in> set cleared then cleared
                     else cleared @ [''consumerAcceptLists''])) \<and>
      (changed \<and> kept = [] \<and> ''consumerAcceptLists'' \<notin> set cleared \<longrightarrow>
         count_list cleared' ''consumerAcceptLists'' = 1) \<and>
      (changed \<and> kept \<noteq> [] \<longrightarrow> cleared' = remove1 ''consumerAcceptLists'' cleared) \<and>
      (changed \<and> kept \<noteq> [] \<and> distinct cleared \<longrightarrow>
         ''consumerAcceptLists'' \<notin> set cleared')"
    if h: "CleanObsoleteAcceptedEndpointUrls sa ids cleared = (changed, sa', cleared')"
      and o: "old_list = (case consumerAcceptLists sa of None \<Rightarrow> [] | Some l \<Rightarrow> l)"
      and k: "kept = filter (accepted_entry_kept ids) old_list"
  proof -
    have p1: "changed = fst (CleanObsoleteAcceptedEndpointUrls sa ids cleared)"
      and p2: "sa' = fst (snd (CleanObsoleteAcceptedEndpointUrls sa ids cleared))"
      and p3: "cleared' = snd (snd (CleanObsoleteAcceptedEndpointUrls sa ids cleared))"
      by (simp_all add: h)
    have c: "changed \<longleftrightarrow> length kept \<noteq> length old_list"
      unfolding p1 CleanObsoleteAcceptedEndpointUrls_eq Let_def o [symmetric] k [symmetric]
      by simp
    have s: "sa' = (if old_list = [] then sa else sa\<lparr>consumerAcceptLists := Some kept\<rparr>)"
      unfolding p2 CleanObsoleteAcceptedEndpointUrls_eq Let_def o [symmetric] k [symmetric]
      by simp
    have cl: "cleared' = (if \<not> changed then cleared
          else if kept = [] then
            (if ''consumerAcceptLists'' \<in> set cleared then cleared
             else cleared @ [''consumerAcceptLists''])
          else remove1 ''consumerAcceptLists'' cleared)"
      unfolding p3 c CleanObsoleteAcceptedEndpointUrls_eq Let_def o [symmetric] k [symmetric]
      by simp
    have c2: "changed \<longleftrightarrow> (\<exists>entry\<in>set old_list. \<not> accepted_entry_kept ids entry)"
      unfolding c k by (simp add: filter_length_eq_iff)
    have n1: "\<not> changed \<longrightarrow> cleared' = cleared"
      unfolding cl by simp
    have n2: "changed \<and> kept = [] \<longrightarrow>
         cleared' = (if ''consumerAcceptLists'' \<in> set cleared then cleared
                     else cleared @ [''consumerAcceptLists''])"
      unfolding cl by simp
    have n3: "changed \<and> kept = [] \<and> ''consumerAcceptLists'' \<notin> set cleared \<longrightarrow>
         count_list cleared' ''consumerAcceptLists'' = 1"
      unfolding cl by (simp add: count_list_0_iff)
    have n4: "changed \<and> kept \<noteq> [] \<longrightarrow> cleared' = remove1 ''consumerAcceptLists'' cleared"
      unfolding cl by simp
    have n5: "changed \<and> kept \<noteq> [] \<and> distinct cleared \<longrightarrow>
         ''consumerAcceptLists'' \<notin> set cleared'"
      unfolding cl by simp
    from s c c2 n1 n2 n3 n4 n5 show ?thesis by blast
  qed
  have rej: "ra' = (if rold_list = [] then ra else ra\<lparr>consumerRejectLists := Some rkept\<rparr>) \<and>
      (rchanged \<longleftrightarrow> length rkept \<noteq> length rold_list) \<and>
      (rchanged \<longleftrightarrow> (\<exists>entry\<in>set rold_list. \<not> rejected_entry_kept ids entry)) \<and>
      (\<not> rchanged \<longrightarrow> rcleared' = rcleared) \<and>
      (rchanged \<and> rkept = [] \<longrightarrow>
         rcleared' = (if ''consumerRejectLists'' \<in> set rcleared then rcleared
                      else rcleared @ [''consumerRejectLists''])) \<and>
      (rchanged \<and> rkept = [] \<and> ''consumerRejectLists'' \<notin> set rcleared \<longrightarrow>
         count_list rcleared' ''consumerRejectLists'' = 1) \<and>
      (rchanged \<and> rkept \<noteq> [] \<longrightarrow> rcleared' = remove1 ''consumerRejectLists'' rcleared) \<and>
      (rchanged \<and> rkept \<noteq> [] \<and> distinct rcleared \<longrightarrow>
         ''consumerRejectLists'' \<notin> set rcleared')"
    if h: "CleanObsoleteRejectedEndpointUrls ra ids rcleared = (rchanged, ra', rcleared')"
      and o: "rold_list = (case consumerRejectLists ra of None \<Rightarrow> [] | Some l \<Rightarrow> l)"
      and k: "rkept = filter (rejected_entry_kept ids) rold_list"
  proof -
    have p1: "rchanged = fst (CleanObsoleteRejectedEndpointUrls ra ids rcleared)"
      and p2: "ra' = fst (snd (CleanObsoleteRejectedEndpointUrls ra ids rcleared))"
      and p3: "rcleared' = snd (snd (CleanObsoleteRejectedEndpointUrls ra ids rcleared))"
      by (simp_all add: h)
    have c: "rchanged \<longleftrightarrow> length rkept \<noteq> length rold_list"
      unfolding p1 CleanObsoleteRejectedEndpointUrls_eq Let_def o [symmetric] k [symmetric]
      by simp
    have s: "ra' = (if rold_list = [] then ra else ra\<lparr>consumerRejectLists := Some rkept\<rparr>)"
      unfolding p2 CleanObsoleteRejectedEndpointUrls_eq Let_def o [symmetric] k [symmetric]
      by simp
    have cl: "rcleared' = (if \<not> rchanged then rcleared
          else if rkept = [] then
            (if ''consumerRejectLists'' \<in> set rcleared then rcleared
             else rcleared @ [''consumerRejectLists''])
          else remove1 ''consumerRejectLists'' rcleared)"
      unfolding p3 c CleanObsoleteRejectedEndpointUrls_eq Let_def o [symmetric] k [symmetric]
      by simp
    have c2: "rchanged \<longleftrightarrow> (\<exists>entry\<in>set rold_list. \<not> rejected_entry_kept ids entry)"
      unfolding c k by (simp add: filter_length_eq_iff)
    have n1: "\<not> rchanged \<longrightarrow> rcleared' = rcleared"
      unfolding cl by simp
    have n2: "rchanged \<and> rkept = [] \<longrightarrow>
         rcleared' = (if ''consumerRejectLists'' \<in> set rcleared then rcleared
                     else rcleared @ [''consumerRejectLists''])"
      unfolding cl by simp
    have n3: "rchanged \<and> rkept = [] \<and> ''consumerRejectLists'' \<notin> set rcleared \<longrightarrow>
         count_list rcleared' ''consumerRejectLists'' = 1"
      unfolding cl by (simp add: count_list_0_iff)
    have n4: "rchanged \<and> rkept \<noteq> [] \<longrightarrow> rcleared' = remove1 ''consumerRejectLists'' rcleared"
      unfolding cl by simp
    have n5: "rchanged \<and> rkept \<noteq> [] \<and> distinct rcleared \<longrightarrow>
         ''consumerRejectLists'' \<notin> set rcleared'"
      unfolding cl by simp
    from s c c2 n1 n2 n3 n4 n5 show ?thesis by blast
  qed
  have ka: "accepted_entry_kept ids entry \<longleftrightarrow>
      endpointUrl entry = None \<or> endpointUrl entry = Some [] \<or>
      (\<exists>url. endpointUrl entry = Some url \<and> trailing_id url \<in> ids)"
    by (auto simp: accepted_entry_kept_def split: option.splits)
  have kr: "rejected_entry_kept ids rentry \<longleftrightarrow>
      \<not> str_in ''/forwardingRules/'' rentry \<or> trailing_id rentry \<in> ids"
    by (simp add: rejected_entry_kept_def)
  show ?thesis
    apply (rule conjI)
     apply (rule impI)
     apply (elim conjE)
     apply (rule acc; assumption)
    apply (rule conjI)
     apply (rule impI)
     apply (elim conjE)
     apply (rule rej; assumption)
    apply (rule conjI)
     apply (rule ka)
    apply (rule kr)
    done
qed

theorem CleanObsolete_pruning_witness:
  "CleanObsoleteAcceptedEndpointUrls
     \<lparr>targetService = None, description = None, connectionPreference = None,
       enableProxyProtocol = None, natSubnets = None, consumerRejectLists = None,
       consumerAcceptLists = Some [\<lparr>projectIdOrNum = None, networkUrl = None, endpointUrl = Some ''p/regions/r/forwardingRules/e3'', connectionLimit = None\<rparr>], connectedEndpoints = None,
       reconcileConnections = None, propagatedConnectionLimit = None\<rparr>
     {''e1'', ''e2''} [] =
   (True,
    \<lparr>targetService = None, description = None, connectionPreference = None,
       enableProxyProtocol = None, natSubnets = None, consumerRejectLists = None,
       consumerAcceptLists = Some [], connectedEndpoints = None,
       reconcileConnections = None, propagatedConnectionLimit = None\<rparr>,
    [''consumerAcceptLists'']) \<and>
   CleanObsoleteRejectedEndpointUrls
     \<lparr>targetService = None, description = None, connectionPreference = None,
       enableProxyProtocol = None, natSubnets = None, consumerRejectLists = Some [''p/regions/r/forwardingRules/e3'', ''p1''],
       consumerAcceptLists = None, connectedEndpoints = None,
       reconcileConnections = None, propagatedConnectionLimit = None\<rparr>
     {''e1'', ''e2''} [''consumerRejectLists''] =
   (True,
    \<lparr>targetService = None, description = None, connectionPreference = None,
       enableProxyProtocol = None, natSubnets = None, consumerRejectLists = Some [''p1''],
       consumerAcceptLists = None, connectedEndpoints = None,
       reconcileConnections = None, propagatedConnectionLimit = None\<rparr>,
    [])"
proof -
  let ?ids = "{''e1'', ''e2''} :: string set"
  let ?e3 = "\<lparr>projectIdOrNum = None, networkUrl = None, endpointUrl = Some ''p/regions/r/forwardingRules/e3'', connectionLimit = None\<rparr>"
  let ?sa = "\<lparr>targetService = None, description = None, connectionPreference = None,
       enableProxyProtocol = None, natSubnets = None, consumerRejectLists = None,
       consumerAcceptLists = Some [?e3], connectedEndpoints = None,
       reconcileConnections = None, propagatedConnectionLimit = None\<rparr>"
  let ?ra = "\<lparr>targetService = None, description = None, connectionPreference = None,
       enableProxyProtocol = None, natSubnets = None, consumerRejectLists = Some [''p/regions/r/forwardingRules/e3'', ''p1''],
       consumerAcceptLists = None, connectedEndpoints = None,
       reconcileConnections = None, propagatedConnectionLimit = None\<rparr>"
  let ?r = "CleanObsoleteAcceptedEndpointUrls ?sa ?ids []"
  let ?q = "CleanObsoleteRejectedEndpointUrls ?ra ?ids [''consumerRejectLists'']"
  note T = CleanObsolete_pruning
  have t3: "trailing_id ''p/regions/r/forwardingRules/e3'' = ''e3''"
    by (simp add: trailing_id_def last_segment_def rstrip_slash_def)
  have k: "\<not> accepted_entry_kept ?ids ?e3"
    by (simp add: accepted_entry_kept_def t3)
  have rk: "\<not> rejected_entry_kept ?ids ''p/regions/r/forwardingRules/e3''"
    "rejected_entry_kept ?ids ''p1''"
    by (simp_all add: rejected_entry_kept_def t3)
  have a: "fst (snd ?r) = ?sa\<lparr>consumerAcceptLists := Some []\<rparr> \<and> fst ?r \<and>
           snd (snd ?r) = [''consumerAcceptLists'']"
    using T [where sa = ?sa and ids = ?ids and cleared = "[]" and changed = "fst ?r"
          and sa' = "fst (snd ?r)" and cleared' = "snd (snd ?r)" and old_list = "[?e3]"
          and kept = "[]", THEN conjunct1]
    by (simp add: k)
  have b: "fst (snd ?q) = ?ra\<lparr>consumerRejectLists := Some [''p1'']\<rparr> \<and> fst ?q \<and>
           snd (snd ?q) = []"
    using T [where ra = ?ra and ids = ?ids and rcleared = "[''consumerRejectLists'']"
          and rchanged = "fst ?q" and ra' = "fst (snd ?q)" and rcleared' = "snd (snd ?q)"
          and rold_list = "[''p/regions/r/forwardingRules/e3'', ''p1'']"
          and rkept = "[''p1'']", THEN conjunct2, THEN conjunct1]
    by (simp add: rk)
  have a': "?r = (True, ?sa\<lparr>consumerAcceptLists := Some []\<rparr>, [''consumerAcceptLists''])"
  proof -
    have "?r = (fst ?r, fst (snd ?r), snd (snd ?r))" by simp
    also have "\<dots> = (True, ?sa\<lparr>consumerAcceptLists := Some []\<rparr>, [''consumerAcceptLists''])"
      using a by (simp only: prod.inject simp_thms)
    finally show ?thesis .
  qed
  have b': "?q = (True, ?ra\<lparr>consumerRejectLists := Some [''p1'']\<rparr>, [])"
  proof -
    have "?q = (fst ?q, fst (snd ?q), snd (snd ?q))" by simp
    also have "\<dots> = (True, ?ra\<lparr>consumerRejectLists := Some [''p1'']\<rparr>, [])"
      using b by (simp only: prod.inject simp_thms)
    finally show ?thesis .
  qed
  from a' b' show ?thesis by simp
qed

section \<open>Properties of the service-account name hook\<close>

text \<open>
  C9. When the service-account argument is specified: with no project (unset or empty) the
  hook raises the required-argument error for \<open>--project\<close>; otherwise with no location it
  raises the required-argument error for \<open>--location\<close>; in both cases the arguments and
  the request are as they were. With a project and a location the hook returns the
  request whose \<open>apiKey\<close>, the one of the request or a new one when the request has none,
  has the service-account name \<open>projects/{project}/locations/{location}/serviceAccounts/{id}\<close>;
  nothing else of the request changes, and the request that is returned is the request
  that was passed, updated in place.
\<close>

theorem ConstructServiceAccountName_specified:
  "hook_service_account (hook_args st) = Some sa_id \<longrightarrow>
     ((hook_project (hook_args st) = None \<or> hook_project (hook_args st) = Some []) \<longrightarrow>
        ConstructServiceAccountName api_key_message_cls st =
          (Inl (RequiredArgumentException ''--project'' ''The --project flag is required.''),
           st)) \<and>
     (hook_project (hook_args st) = Some project \<and> project \<noteq> [] \<and>
      (hook_location (hook_args st) = None \<or> hook_location (hook_args st) = Some []) \<longrightarrow>
        ConstructServiceAccountName api_key_message_cls st =
          (Inl (RequiredArgumentException ''--location'' ''The --location flag is required.''),
           st)) \<and>
     (hook_project (hook_args st) = Some project \<and> project \<noteq> [] \<and>
      hook_location (hook_args st) = Some location \<and> location \<noteq> [] \<longrightarrow>
        (\<exists>request' st'.
           ConstructServiceAccountName api_key_message_cls st = (Inr request', st') \<and>
           hook_request st' = request' \<and>
           request' =
             (hook_request st)\<lparr>apiKey :=
                Some ((case apiKey (hook_request st) of
                         None \<Rightarrow> api_key_message_cls
                       | Some k \<Rightarrow> k)\<lparr>serviceAccountName :=
                  Some (''projects/'' @ project @ ''/locations/'' @ location @
                        ''/serviceAccounts/'' @ sa_id)\<rparr>)\<rparr> \<and>
           hook_args st' = (hook_args st)\<lparr>hook_service_account := None\<rparr>))"
  by (auto simp: ConstructServiceAccountName_def project_required_def location_required_def
      Let_def)

theorem ConstructServiceAccountName_specified_witness:
  "ConstructServiceAccountName \<lparr>serviceAccountName = None\<rparr>
     \<lparr>hook_args = \<lparr>hook_service_account = Some ''sa1'', hook_project = None,
                    hook_location = Some ''us-central1''\<rparr>,
      hook_request = \<lparr>apiKey = None\<rparr>\<rparr> =
     (Inl (RequiredArgumentException ''--project'' ''The --project flag is required.''),
      \<lparr>hook_args = \<lparr>hook_service_account = Some ''sa1'', hook_project = None,
                     hook_location = Some ''us-central1''\<rparr>,
       hook_request = \<lparr>apiKey = None\<rparr>\<rparr>) \<and>
   ConstructServiceAccountName \<lparr>serviceAccountName = None\<rparr>
     \<lparr>hook_args = \<lparr>hook_service_account = Some ''sa1'', hook_project = Some ''p1'',
                    hook_location = Some []\<rparr>,
      hook_request = \<lparr>apiKey = None\<rparr>\<rparr> =
     (Inl (RequiredArgumentException ''--location'' ''The --location flag is required.''),
      \<lparr>hook_args = \<lparr>hook_service_account = Some ''sa1'', hook_project = Some ''p1'',
                     hook_location = Some []\<rparr>,
       hook_request = \<lparr>apiKey = None\<rparr>\<rparr>) \<and>
   fst (ConstructServiceAccountName \<lparr>serviceAccountName = None\<rparr>
     \<lparr>hook_args = \<lparr>hook_service_account = Some ''sa1'', hook_project = Some ''p1'',
                    hook_location = Some ''us-central1''\<rparr>,
      hook_request = \<lparr>apiKey = None\<rparr>\<rparr>) =
     Inr \<lparr>apiKey = Some \<lparr>serviceAccountName =
            Some ''projects/p1/locations/us-central1/serviceAccounts/sa1''\<rparr>\<rparr>"
proof -
  let ?cls = "\<lparr>serviceAccountName = None\<rparr>"
  let ?s1 = "\<lparr>hook_args = \<lparr>hook_service_account = Some ''sa1'', hook_project = None,
                    hook_location = Some ''us-central1''\<rparr>,
      hook_request = \<lparr>apiKey = None :: ApiKey option\<rparr>\<rparr>"
  let ?s2 = "\<lparr>hook_args = \<lparr>hook_service_account = Some ''sa1'', hook_project = Some ''p1'',
                    hook_location = Some []\<rparr>,
      hook_request = \<lparr>apiKey = None :: ApiKey option\<rparr>\<rparr>"
  let ?s3 = "\<lparr>hook_args = \<lparr>hook_service_account = Some ''sa1'', hook_project = Some ''p1'',
                    hook_location = Some ''us-central1''\<rparr>,
      hook_request = \<lparr>apiKey = None :: ApiKey option\<rparr>\<rparr>"
  note T = ConstructServiceAccountName_specified
  have a: "ConstructServiceAccountName ?cls ?s1 =
     (Inl (RequiredArgumentException ''--project'' ''The --project flag is required.''), ?s1)"
    using T [where st = ?s1 and sa_id = "''sa1''" and api_key_message_cls = ?cls,
          THEN mp, THEN conjunct1]
    by simp
  have b: "ConstructServiceAccountName ?cls ?s2 =
     (Inl (RequiredArgumentException ''--location'' ''The --location flag is required.''), ?s2)"
    using T [where st = ?s2 and sa_id = "''sa1''" and api_key_message_cls = ?cls
          and project = "''p1''",
          THEN mp, THEN conjunct2, THEN conjunct1]
    by simp
  have c: "fst (ConstructServiceAccountName ?cls ?s3) =
     Inr \<lparr>apiKey = Some \<lparr>serviceAccountName =
            Some ''projects/p1/locations/us-central1/serviceAccounts/sa1''\<rparr>\<rparr>"
    using T [where st = ?s3 and sa_id = "''sa1''" and api_key_message_cls = ?cls
          and project = "''p1''" and location = "''us-central1''",
          THEN mp, THEN conjunct2, THEN conjunct2]
    by auto
  from a b c show ?thesis by blast
qed

end
